theory Spec2Isabelle
  imports Main "HOL-Library.Sublist"
begin

section \<open>The storage cleaner extension (cmd/jaeger/internal/integration/storagecleaner)\<close>

text \<open>
  A shallow embedding of \<^verbatim>\<open>extension.go\<close>: the \<^verbatim>\<open>storageCleaner\<close> struct, its
  constructor, \<^verbatim>\<open>Start\<close> with the two closures it builds (\<^verbatim>\<open>purgeStorage\<close> and
  \<^verbatim>\<open>purgeHandler\<close>), the goroutine it spawns, and \<^verbatim>\<open>Shutdown\<close>.

  Mutation of the receiver \<^verbatim>\<open>c\<close> is explicit state passing: every operation takes the
  struct and returns it. Everything outside the struct that the code acts on (the
  storage behind the factory, the goroutines spawned, the status events reported to
  the host) is a second record, the world, passed the same way. Go's \<^verbatim>\<open>error\<close>
  results are \<open>error option\<close>, \<open>None\<close> being \<^verbatim>\<open>nil\<close>.
\<close>

subsection \<open>Errors\<close>

text \<open>
  The error values the code handles: the sentinel \<^verbatim>\<open>http.ErrServerClosed\<close> (compared
  by identity in Go, so a constructor of its own here), an error that only carries a
  message, and the result of \<^verbatim>\<open>fmt.Errorf\<close> with a \<^verbatim>\<open>%w\<close> verb, which carries its
  message and the error it wraps.
\<close>

datatype error = ErrServerClosed | ErrorString string | WrapError string error

fun Error :: "error \<Rightarrow> string" where
  "Error ErrServerClosed = ''http: Server closed''"
| "Error (ErrorString s) = s"
| "Error (WrapError s e) = s"

fun Unwrap :: "error \<Rightarrow> error option" where
  "Unwrap (WrapError s e) = Some e"
| "Unwrap e = None"

text \<open>\<^verbatim>\<open>errors.Is\<close>: the error or one of those it wraps is the target.\<close>

fun errors_Is :: "error \<Rightarrow> error \<Rightarrow> bool" where
  "errors_Is (WrapError s e) target = (WrapError s e = target \<or> errors_Is e target)"
| "errors_Is e target = (e = target)"

text \<open>
  \<^verbatim>\<open>fmt.Errorf(pre + "%w", err)\<close>: every wrapping format of the file ends in
  \<^verbatim>\<open>%w\<close>, so the message is the text before it followed by the message of \<^verbatim>\<open>err\<close>.
\<close>

definition Errorf_w :: "string \<Rightarrow> error \<Rightarrow> error" where
  "Errorf_w pre err = WrapError (pre @ Error err) err"

subsection \<open>Configuration, storage factories and the host\<close>

text \<open>The two fields of \<^verbatim>\<open>Config\<close> that the code reads.\<close>

record Config =
  TraceStorage :: string
  Port :: string

definition Port_default :: string where
  "Port_default = ''9231''"

definition URL :: string where
  "URL = ''/purge''"

definition MethodPost :: string where
  "MethodPost = ''POST''"

definition StatusOK :: nat where
  "StatusOK = 200"

definition StatusInternalServerError :: nat where
  "StatusInternalServerError = 500"

definition StatusNotFound :: nat where
  "StatusNotFound = 404"

definition StatusMethodNotAllowed :: nat where
  "StatusMethodNotAllowed = 405"

text \<open>
  A \<^verbatim>\<open>storage.Factory\<close> value, as far as this file looks at it: whether it
  implements \<^verbatim>\<open>storage.Purger\<close>, and if so its \<^verbatim>\<open>Purge()\<close> method, which acts on the
  stored data \<open>'b\<close> and returns an error or \<^verbatim>\<open>nil\<close>. The type assertion
  \<^verbatim>\<open>storageFactory.(storage.Purger)\<close> is the selector \<open>Purger\<close>: \<open>None\<close> is
  \<^verbatim>\<open>ok == false\<close>.
\<close>

datatype 'b Factory = Factory (Purger: "('b \<Rightarrow> error option \<times> 'b) option")

text \<open>The host, as the registry of storage factories by name.\<close>

type_synonym 'b Host = "string \<rightharpoonup> 'b Factory"

definition quote :: string where
  "quote = [CHR 0x27]"

text \<open>
  Modelled from the spec: \<^verbatim>\<open>jaegerstorage.GetStorageFactory\<close> is not among the sources.
  The spec describes a synchronous lookup of a backend name in the host's registry
  that either finds the backend or does not; the message of the error returned when
  it does not is this model's.
\<close>

definition GetStorageFactory :: "string \<Rightarrow> 'b Host \<Rightarrow> error + 'b Factory" where
  "GetStorageFactory name host =
     (case host name of
        None \<Rightarrow> Inl (ErrorString (''cannot find storage '' @ quote @ name @ quote))
      | Some f \<Rightarrow> Inr f)"

subsection \<open>HTTP: requests, response writers, router, server\<close>

record Request =
  Method :: string
  Path :: string

text \<open>
  An \<^verbatim>\<open>http.ResponseWriter\<close>: the header map, the status code once
  \<^verbatim>\<open>WriteHeader\<close> has been called, and the bytes written.
\<close>

record ResponseWriter =
  header :: "string \<rightharpoonup> string"
  statusCode :: "nat option"
  body :: string

definition newResponseWriter :: ResponseWriter where
  "newResponseWriter = \<lparr>header = Map.empty, statusCode = None, body = []\<rparr>"

text \<open>\<^verbatim>\<open>WriteHeader\<close>: only the first call sets the status.\<close>

definition WriteHeader :: "nat \<Rightarrow> ResponseWriter \<Rightarrow> ResponseWriter" where
  "WriteHeader code rw = (if statusCode rw = None then rw\<lparr>statusCode := Some code\<rparr> else rw)"

text \<open>\<^verbatim>\<open>Write\<close>: an implicit \<^verbatim>\<open>WriteHeader(200)\<close> if none was sent, then the bytes.\<close>

definition Write :: "string \<Rightarrow> ResponseWriter \<Rightarrow> ResponseWriter" where
  "Write bs rw = (let rw' = WriteHeader StatusOK rw in rw'\<lparr>body := body rw' @ bs\<rparr>)"

text \<open>
  \<^verbatim>\<open>http.Error\<close>: two headers, the status, and the message followed by a newline
  (\<^verbatim>\<open>fmt.Fprintln\<close>).
\<close>

definition http_Error :: "ResponseWriter \<Rightarrow> string \<Rightarrow> nat \<Rightarrow> ResponseWriter" where
  "http_Error rw msg code =
     (let rw1 = rw\<lparr>header := (header rw)(''Content-Type'' \<mapsto> ''text/plain; charset=utf-8'')\<rparr>;
          rw2 = rw1\<lparr>header := (header rw1)(''X-Content-Type-Options'' \<mapsto> ''nosniff'')\<rparr>;
          rw3 = WriteHeader code rw2
      in Write (msg @ [CHR 0x0A]) rw3)"

text \<open>
  The closures handed to the router. \<^verbatim>\<open>purgeHandler\<close> captures the variable
  \<^verbatim>\<open>storageFactory\<close> of \<^verbatim>\<open>Start\<close> (and the receiver, which is passed when it runs).
\<close>

datatype 'b HandlerFunc = purgeHandlerFunc "'b Factory"

record 'b Route =
  route_path :: string
  route_methods :: "string list"
  route_handler :: "'b HandlerFunc"

type_synonym 'b Router = "'b Route list"

definition NewRouter :: "'b Router" where
  "NewRouter = []"

text \<open>\<^verbatim>\<open>r.HandleFunc(path, f).Methods(ms...)\<close>: one more route.\<close>

definition HandleFunc_Methods :: "string \<Rightarrow> 'b HandlerFunc \<Rightarrow> string list \<Rightarrow> 'b Router \<Rightarrow> 'b Router" where
  "HandleFunc_Methods p f ms r = r @ [\<lparr>route_path = p, route_methods = ms, route_handler = f\<rparr>]"

definition Second :: int where
  "Second = 1000000000"

record 'b http_Server =
  Addr :: string
  Handler :: "'b Router"
  ReadHeaderTimeout :: int

subsection \<open>The extension and the world around it\<close>

text \<open>
  \<^verbatim>\<open>component.TelemetrySettings\<close>, of which the code uses \<^verbatim>\<open>ReportStatus\<close>: a
  reference to the host's status reporter.
\<close>

datatype TelemetrySettings = TelemetrySettings (reporter: nat)

datatype StatusEvent = NewFatalErrorEvent error

record 'b storageCleaner =
  config :: Config
  server :: "'b http_Server option"
  settings :: TelemetrySettings

text \<open>The goroutine of \<^verbatim>\<open>Start\<close>; it reads the receiver when it runs.\<close>

datatype goroutine = ListenerTask

record 'b World =
  storage :: 'b
  goroutines :: "goroutine list"
  statusEvents :: "StatusEvent list"

definition go :: "goroutine \<Rightarrow> 'b World \<Rightarrow> 'b World" where
  "go g w = w\<lparr>goroutines := goroutines w @ [g]\<rparr>"

definition ReportStatus :: "TelemetrySettings \<Rightarrow> StatusEvent \<Rightarrow> 'b World \<Rightarrow> 'b World" where
  "ReportStatus ts ev w = w\<lparr>statusEvents := statusEvents w @ [ev]\<rparr>"

datatype Context = Context (deadline: "nat option")

definition newStorageCleaner :: "Config \<Rightarrow> TelemetrySettings \<Rightarrow> 'b storageCleaner" where
  "newStorageCleaner cfg telemetrySettings =
     \<lparr>config = cfg, server = None, settings = telemetrySettings\<rparr>"

subsection \<open>The closures of Start\<close>

text \<open>
  \<^verbatim>\<open>purgeStorage\<close>, lines 50 to 59. The receiver and the world go in and come out, as
  the closure can reach both.
\<close>

definition purgeStorage ::
  "'b Factory \<Rightarrow> 'b storageCleaner \<times> 'b World \<Rightarrow> error option \<times> 'b storageCleaner \<times> 'b World" where
  "purgeStorage storageFactory s =
     (case s of (c, w) \<Rightarrow>
        (case Purger storageFactory of
           None \<Rightarrow>
             (Some (ErrorString (''storage '' @ TraceStorage (config c) @
                                  '' does not implement Purger interface'')), c, w)
         | Some purge \<Rightarrow>
             (case purge (storage w) of
                (Some err, st) \<Rightarrow>
                  (Some (Errorf_w ''error purging storage: '' err), c, w\<lparr>storage := st\<rparr>)
              | (None, st) \<Rightarrow> (None, c, w\<lparr>storage := st\<rparr>))))"

text \<open>\<^verbatim>\<open>purgeHandler\<close>, lines 61 to 68.\<close>

definition purgeHandler ::
  "'b Factory \<Rightarrow> ResponseWriter \<Rightarrow> Request \<Rightarrow> 'b storageCleaner \<times> 'b World
     \<Rightarrow> ResponseWriter \<times> 'b storageCleaner \<times> 'b World" where
  "purgeHandler storageFactory rw r s =
     (case purgeStorage storageFactory s of
        (Some err, s') \<Rightarrow> (http_Error rw (Error err) StatusInternalServerError, s')
      | (None, s') \<Rightarrow>
          (Write ''Purge request processed successfully'' (WriteHeader StatusOK rw), s'))"

fun call_HandlerFunc ::
  "'b HandlerFunc \<Rightarrow> ResponseWriter \<Rightarrow> Request \<Rightarrow> 'b storageCleaner \<times> 'b World
     \<Rightarrow> ResponseWriter \<times> 'b storageCleaner \<times> 'b World" where
  "call_HandlerFunc (purgeHandlerFunc storageFactory) rw r s = purgeHandler storageFactory rw r s"

text \<open>
  The router's dispatch: the first route whose path and method both match handles the
  request; a path that matches under another method only is answered 405, anything
  else 404, neither calling a handler of this file.
\<close>

definition Router_ServeHTTP ::
  "'b Router \<Rightarrow> ResponseWriter \<Rightarrow> Request \<Rightarrow> 'b storageCleaner \<times> 'b World
     \<Rightarrow> ResponseWriter \<times> 'b storageCleaner \<times> 'b World" where
  "Router_ServeHTTP router rw r s =
     (case find (\<lambda>rt. route_path rt = Path r \<and> Method r \<in> set (route_methods rt)) router of
        Some rt \<Rightarrow> call_HandlerFunc (route_handler rt) rw r s
      | None \<Rightarrow>
          (if find (\<lambda>rt. route_path rt = Path r) router = None
           then (http_Error rw ''404 page not found'' StatusNotFound, s)
           else (WriteHeader StatusMethodNotAllowed rw, s)))"

text \<open>
  A request arriving at the extension: refused (\<open>None\<close>) when there is no server,
  otherwise answered by the server's handler on a fresh response writer.
\<close>

definition serve ::
  "Request \<Rightarrow> 'b storageCleaner \<times> 'b World \<Rightarrow> (ResponseWriter option) \<times> 'b storageCleaner \<times> 'b World" where
  "serve r s =
     (case server (fst s) of
        None \<Rightarrow> (None, s)
      | Some srv \<Rightarrow>
          (case Router_ServeHTTP (Handler srv) newResponseWriter r s of
             (rw, s') \<Rightarrow> (Some rw, s')))"

subsection \<open>Start, the listener goroutine, Shutdown\<close>

text \<open>\<^verbatim>\<open>Start\<close>, lines 44 to 85.\<close>

definition Start ::
  "Context \<Rightarrow> 'b Host \<Rightarrow> 'b storageCleaner \<times> 'b World \<Rightarrow> error option \<times> 'b storageCleaner \<times> 'b World" where
  "Start ctx host s =
     (case s of (c, w) \<Rightarrow>
        (case GetStorageFactory (TraceStorage (config c)) host of
           Inl err \<Rightarrow>
             (Some (Errorf_w (''cannot find storage factory '' @ quote @ TraceStorage (config c) @
                              quote @ '': '') err), c, w)
         | Inr storageFactory \<Rightarrow>
             (let r = HandleFunc_Methods URL (purgeHandlerFunc storageFactory) [MethodPost] NewRouter;
                  c' = c\<lparr>server := Some \<lparr>Addr = '':'' @ Port (config c),
                                         Handler = r,
                                         ReadHeaderTimeout = 3 * Second\<rparr>\<rparr>
              in (None, c', go ListenerTask w))))"

text \<open>
  The body of the goroutine, lines 77 to 82, given what \<^verbatim>\<open>c.server.ListenAndServe()\<close>
  returned.
\<close>

definition listenerTask ::
  "error option \<Rightarrow> 'b storageCleaner \<times> 'b World \<Rightarrow> 'b storageCleaner \<times> 'b World" where
  "listenerTask listenResult s =
     (case s of (c, w) \<Rightarrow>
        (case listenResult of
           None \<Rightarrow> (c, w)
         | Some err \<Rightarrow>
             (if \<not> errors_Is err ErrServerClosed
              then (c, ReportStatus (settings c)
                         (NewFatalErrorEvent (Errorf_w ''error starting cleaner server: '' err)) w)
              else (c, w))))"

text \<open>
  \<^verbatim>\<open>Shutdown\<close>, lines 87 to 94. The method \<^verbatim>\<open>(*http.Server).Shutdown\<close> of the
  standard library is the parameter \<open>srvShutdown\<close>: what the graceful close of that
  server under that context returns.
\<close>

definition Shutdown ::
  "('b http_Server \<Rightarrow> Context \<Rightarrow> error option) \<Rightarrow> Context \<Rightarrow> 'b storageCleaner \<times> 'b World
     \<Rightarrow> error option \<times> 'b storageCleaner \<times> 'b World" where
  "Shutdown srvShutdown ctx s =
     (case server (fst s) of
        Some srv \<Rightarrow>
          (case srvShutdown srv ctx of
             Some err \<Rightarrow> (Some (Errorf_w ''error shutting down cleaner server: '' err), s)
           | None \<Rightarrow> (None, s))
      | None \<Rightarrow> (None, s))"

subsection \<open>Histories of the extension\<close>

text \<open>
  What can happen to an extension once constructed: the host calls \<^verbatim>\<open>Start\<close> or
  \<^verbatim>\<open>Shutdown\<close>, a request arrives, the listener goroutine's \<^verbatim>\<open>ListenAndServe\<close> returns.
\<close>

datatype 'b Call =
    CallStart Context "'b Host"
  | CallShutdown Context
  | CallServe Request
  | ListenerReturns "error option"

fun step ::
  "('b http_Server \<Rightarrow> Context \<Rightarrow> error option) \<Rightarrow> 'b storageCleaner \<times> 'b World \<Rightarrow> 'b Call
     \<Rightarrow> 'b storageCleaner \<times> 'b World" where
  "step sd s (CallStart ctx host) = snd (Start ctx host s)"
| "step sd s (CallShutdown ctx) = snd (Shutdown sd ctx s)"
| "step sd s (CallServe r) = snd (serve r s)"
| "step sd s (ListenerReturns res) = listenerTask res s"

definition run ::
  "('b http_Server \<Rightarrow> Context \<Rightarrow> error option) \<Rightarrow> 'b storageCleaner \<times> 'b World \<Rightarrow> 'b Call list
     \<Rightarrow> 'b storageCleaner \<times> 'b World" where
  "run sd s calls = foldl (step sd) s calls"

text \<open>A call to \<^verbatim>\<open>Start\<close> that finds the configured storage.\<close>

fun resolves :: "Config \<Rightarrow> 'b Call \<Rightarrow> bool" where
  "resolves cfg (CallStart ctx host) = (host (TraceStorage cfg) \<noteq> None)"
| "resolves cfg call = False"

text \<open>The requests of a list served one after the other, with their responses.\<close>

fun serveAll ::
  "Request list \<Rightarrow> 'b storageCleaner \<times> 'b World
     \<Rightarrow> ResponseWriter option list \<times> 'b storageCleaner \<times> 'b World" where
  "serveAll [] s = ([], s)"
| "serveAll (r # rs) s =
     (case serve r s of
        (resp, s') \<Rightarrow> (case serveAll rs s' of (resps, s'') \<Rightarrow> (resp # resps, s'')))"

subsection \<open>Concrete inputs\<close>

text \<open>
  A configuration, hosts with and without the configured storage, storages whose
  purge succeeds, fails or does not exist, and results of the server's graceful
  close, used to instantiate the theorems below. The stored data is a count of
  traces.
\<close>

definition ex_config :: Config where
  "ex_config = \<lparr>TraceStorage = ''some_store'', Port = ''9231''\<rparr>"

definition ex_settings :: TelemetrySettings where
  "ex_settings = TelemetrySettings 0"

definition ex_world :: "nat World" where
  "ex_world = \<lparr>storage = 7, goroutines = [], statusEvents = []\<rparr>"

definition ex_cleaner :: "nat storageCleaner" where
  "ex_cleaner = newStorageCleaner ex_config ex_settings"

definition ex_purge_ok :: "nat \<Rightarrow> error option \<times> nat" where
  "ex_purge_ok n = (None, 0)"

definition ex_purge_fail :: "nat \<Rightarrow> error option \<times> nat" where
  "ex_purge_fail n = (Some (ErrorString ''disk unavailable''), n)"

definition ex_host_ok :: "nat Host" where
  "ex_host_ok = [''some_store'' \<mapsto> Factory (Some ex_purge_ok)]"

definition ex_host_fail :: "nat Host" where
  "ex_host_fail = [''some_store'' \<mapsto> Factory (Some ex_purge_fail)]"

definition ex_host_nopurger :: "nat Host" where
  "ex_host_nopurger = [''some_store'' \<mapsto> Factory None]"

definition ex_host_other :: "nat Host" where
  "ex_host_other = [''another_store'' \<mapsto> Factory (Some ex_purge_ok)]"

definition ex_post :: Request where
  "ex_post = \<lparr>Method = ''POST'', Path = ''/purge''\<rparr>"

definition ex_ctx :: Context where
  "ex_ctx = Context (Some 5)"

definition ex_close_ok :: "nat http_Server \<Rightarrow> Context \<Rightarrow> error option" where
  "ex_close_ok srv ctx = None"

definition ex_close_fail :: "nat http_Server \<Rightarrow> Context \<Rightarrow> error option" where
  "ex_close_fail srv ctx = Some (ErrorString ''context deadline exceeded'')"

definition ex_bind_error :: error where
  "ex_bind_error = ErrorString ''listen tcp :9231: bind: address already in use''"

section \<open>Properties\<close>

subsection \<open>Auxiliary facts\<close>

lemmas http_defs = WriteHeader_def Write_def http_Error_def newResponseWriter_def
  StatusOK_def StatusInternalServerError_def StatusNotFound_def StatusMethodNotAllowed_def

text \<open>What \<^verbatim>\<open>Start\<close> does when the configured storage is registered.\<close>

lemma Start_resolved:
  "host (TraceStorage (config c)) = Some f \<Longrightarrow>
   Start ctx host (c, w) =
     (None,
      c\<lparr>server := Some \<lparr>Addr = '':'' @ Port (config c),
                         Handler = [\<lparr>route_path = URL, route_methods = [MethodPost],
                                     route_handler = purgeHandlerFunc f\<rparr>],
                         ReadHeaderTimeout = 3 * Second\<rparr>\<rparr>,
      go ListenerTask w)"
  by (simp add: Start_def GetStorageFactory_def HandleFunc_Methods_def NewRouter_def)

text \<open>
  After such a \<^verbatim>\<open>Start\<close>, a \<^verbatim>\<open>POST /purge\<close> reaches \<^verbatim>\<open>purgeHandler\<close> with the factory
  that \<^verbatim>\<open>Start\<close> resolved, in whatever state the world is by then.
\<close>

lemma serve_started:
  assumes "host (TraceStorage (config c0)) = Some f"
    and "Start ctx host (c0, w0) = (e, c, w1)"
    and "Method r = MethodPost" "Path r = URL"
  shows "serve r (c, w) =
           (case purgeHandler f newResponseWriter r (c, w) of (rw, s') \<Rightarrow> (Some rw, s'))"
  using assms
  by (auto simp add: Start_resolved serve_def Router_ServeHTTP_def)

lemma purgeStorage_frame: "fst (snd (purgeStorage f (c, w))) = c"
  by (simp add: purgeStorage_def split: option.splits prod.splits)

lemma purgeHandler_frame: "fst (snd (purgeHandler f rw r (c, w))) = c"
  using purgeStorage_frame [of f c w]
  by (auto simp add: purgeHandler_def split: option.splits prod.splits)

lemma call_frame: "fst (snd (call_HandlerFunc h rw r (c, w))) = c"
  by (cases h) (simp add: purgeHandler_frame)

lemma Router_frame: "fst (snd (Router_ServeHTTP rt rw r (c, w))) = c"
  by (simp add: Router_ServeHTTP_def call_frame split: option.splits)

lemma serve_frame: "fst (snd (serve r (c, w))) = c"
proof (cases "server c")
  case None
  then show ?thesis by (simp add: serve_def)
next
  case (Some srv)
  then show ?thesis
    using Router_frame [of "Handler srv" newResponseWriter r c w]
    by (cases "Router_ServeHTTP (Handler srv) newResponseWriter r (c, w)") (simp add: serve_def)
qed

text \<open>What each operation leaves alone, and what a history does to the \<^verbatim>\<open>server\<close> field.\<close>

lemma Shutdown_frame: "snd (Shutdown sd ctx s) = s"
  by (simp add: Shutdown_def split: option.splits)

lemma listenerTask_frame: "fst (listenerTask res (c, w)) = c"
  by (simp add: listenerTask_def split: option.splits)

lemma Start_config: "config (fst (snd (Start ctx host (c, w)))) = config c"
  by (cases "host (TraceStorage (config c))") (simp_all add: Start_def GetStorageFactory_def)

lemma Start_server:
  "server (fst (snd (Start ctx host (c, w)))) = None \<longleftrightarrow>
     server c = None \<and> host (TraceStorage (config c)) = None"
  by (cases "host (TraceStorage (config c))") (simp_all add: Start_def GetStorageFactory_def)

lemma step_config: "config (fst (step sd s call)) = config (fst s)"
proof (cases s)
  case (Pair c w)
  then show ?thesis
    by (cases call) (simp_all add: Start_config Shutdown_frame serve_frame listenerTask_frame)
qed

lemma step_server:
  "server (fst (step sd s call)) = None \<longleftrightarrow>
     server (fst s) = None \<and> \<not> resolves (config (fst s)) call"
proof (cases s)
  case (Pair c w)
  then show ?thesis
    by (cases call) (simp_all add: Start_server Shutdown_frame serve_frame listenerTask_frame)
qed

lemma run_config: "config (fst (run sd s calls)) = config (fst s)"
  unfolding run_def by (induction calls arbitrary: s) (simp_all add: step_config)

lemma run_server:
  "server (fst (run sd s calls)) = None \<longleftrightarrow>
     server (fst s) = None \<and> \<not> list_ex (resolves (config (fst s))) calls"
  unfolding run_def
proof (induction calls arbitrary: s)
  case Nil
  show ?case by simp
next
  case (Cons call calls)
  show ?case
    using Cons.IH [of "step sd s call"] by (auto simp add: step_config step_server)
qed

text \<open>Requests to an extension started on a storage that is no \<^verbatim>\<open>Purger\<close>.\<close>

lemma http_Error_fresh:
  "statusCode (http_Error newResponseWriter msg code) = Some code"
  "body (http_Error newResponseWriter msg code) = msg @ [CHR 0x0A]"
  by (simp_all add: http_Error_def Write_def WriteHeader_def newResponseWriter_def)

lemma Start_keeps_config:
  "Start ctx host (c0, w0) = (e, c, w1) \<Longrightarrow> config c = config c0"
  using Start_config [of ctx host c0 w0] by simp

lemma serve_without_purger:
  assumes "host (TraceStorage (config c0)) = Some f" and "Purger f = None"
    and "Start ctx host (c0, w0) = (e, c, w1)"
    and "Method r = MethodPost" and "Path r = URL"
  shows "serve r (c, w) =
           (Some (http_Error newResponseWriter
                    (''storage '' @ TraceStorage (config c0) @ '' does not implement Purger interface'')
                    StatusInternalServerError), c, w)"
  using serve_started [OF assms(1,3,4,5), of w] assms(2) Start_keeps_config [OF assms(3)]
  by (simp add: purgeHandler_def purgeStorage_def)

lemma serveAll_without_purger:
  assumes "host (TraceStorage (config c0)) = Some f" and "Purger f = None"
    and "Start ctx host (c0, w0) = (e, c, w1)"
  shows "(\<forall>r \<in> set rs. Method r = MethodPost \<and> Path r = URL) \<Longrightarrow>
         serveAll rs (c, w) =
           (replicate (length rs)
              (Some (http_Error newResponseWriter
                       (''storage '' @ TraceStorage (config c0) @
                        '' does not implement Purger interface'')
                       StatusInternalServerError)), c, w)"
proof (induction rs)
  case Nil
  show ?case by simp
next
  case (Cons r rs)
  from Cons.prems have r: "Method r = MethodPost" "Path r = URL" by simp_all
  from Cons.prems have "\<forall>r \<in> set rs. Method r = MethodPost \<and> Path r = URL" by simp
  then have ih: "serveAll rs (c, w) =
           (replicate (length rs)
              (Some (http_Error newResponseWriter
                       (''storage '' @ TraceStorage (config c0) @
                        '' does not implement Purger interface'')
                       StatusInternalServerError)), c, w)"
    by (rule Cons.IH)
  have "serveAll (r # rs) (c, w) =
          (case serve r (c, w) of
             (resp, s') \<Rightarrow> (case serveAll rs s' of (resps, s'') \<Rightarrow> (resp # resps, s'')))"
    by (rule serveAll.simps(2))
  also have "\<dots> = (case serveAll rs (c, w) of (resps, s'') \<Rightarrow>
      (Some (http_Error newResponseWriter
               (''storage '' @ TraceStorage (config c0) @ '' does not implement Purger interface'')
               StatusInternalServerError) # resps, s''))"
    by (simp only: serve_without_purger [OF assms(1,2,3) r, of w] prod.case)
  finally show ?case by (simp only: ih prod.case length_Cons replicate_Suc)
qed

subsection \<open>Request handling\<close>

text \<open>
  C2. Let \<^verbatim>\<open>Start\<close> have resolved the configured storage to a factory that implements
  \<^verbatim>\<open>Purger\<close> (so \<^verbatim>\<open>Start\<close> returned \<^verbatim>\<open>nil\<close>), and let a \<^verbatim>\<open>POST /purge\<close> arrive in any
  later state of the world. If the factory's \<^verbatim>\<open>Purge\<close> succeeds there, the response has
  status 200 and its body is exactly \<^verbatim>\<open>Purge request processed successfully\<close>.
\<close>

theorem purge_success_200:
  assumes "host (TraceStorage (config c0)) = Some f"
    and "Start ctx host (c0, w0) = (e, c, w1)"
    and "Purger f = Some purge"
    and "fst (purge (storage w)) = None"
    and "Method r = MethodPost" and "Path r = URL"
  shows "e = None \<and>
         Option.bind (fst (serve r (c, w))) statusCode = Some 200 \<and>
         map_option body (fst (serve r (c, w))) = Some ''Purge request processed successfully''"
proof -
  from assms(1,2) have "e = None" by (simp add: Start_resolved)
  moreover obtain st where "purge (storage w) = (None, st)"
    using assms(4) by (cases "purge (storage w)") auto
  then have "purgeHandler f newResponseWriter r (c, w) =
      (Write ''Purge request processed successfully'' (WriteHeader StatusOK newResponseWriter),
       c, w\<lparr>storage := st\<rparr>)"
    using assms(3) by (simp add: purgeHandler_def purgeStorage_def)
  ultimately show ?thesis
    using serve_started [OF assms(1,2,5,6), of w] by (simp add: http_defs)
qed

theorem purge_success_200_witness:
  "ex_host_ok (TraceStorage (config ex_cleaner)) = Some (Factory (Some ex_purge_ok)) \<and>
   Purger (Factory (Some ex_purge_ok)) = Some ex_purge_ok \<and>
   fst (ex_purge_ok (storage ex_world)) = None \<and>
   Method ex_post = MethodPost \<and> Path ex_post = URL \<and>
   fst (Start ex_ctx ex_host_ok (ex_cleaner, ex_world)) = None \<and>
   Option.bind (fst (serve ex_post (snd (Start ex_ctx ex_host_ok (ex_cleaner, ex_world))))) statusCode
     = Some 200 \<and>
   map_option body (fst (serve ex_post (snd (Start ex_ctx ex_host_ok (ex_cleaner, ex_world)))))
     = Some ''Purge request processed successfully''"
  using purge_success_200 [of ex_host_ok ex_cleaner "Factory (Some ex_purge_ok)" ex_ctx ex_world
      "fst (Start ex_ctx ex_host_ok (ex_cleaner, ex_world))"
      "fst (snd (Start ex_ctx ex_host_ok (ex_cleaner, ex_world)))"
      "snd (snd (Start ex_ctx ex_host_ok (ex_cleaner, ex_world)))"
      ex_purge_ok "snd (snd (Start ex_ctx ex_host_ok (ex_cleaner, ex_world)))" ex_post]
  by (simp add: ex_host_ok_def ex_cleaner_def ex_config_def newStorageCleaner_def ex_purge_ok_def
      ex_post_def MethodPost_def URL_def)

text \<open>
  C3. In the same situation, if the factory's \<^verbatim>\<open>Purge\<close> fails with the error \<open>E\<close>, the
  response has status 500 and its body contains the message of \<open>E\<close>: the body is
  \<^verbatim>\<open>error purging storage: \<close>, the message of \<open>E\<close>, and a newline.
\<close>

theorem purge_failure_500:
  assumes "host (TraceStorage (config c0)) = Some f"
    and "Start ctx host (c0, w0) = (e, c, w1)"
    and "Purger f = Some purge"
    and "fst (purge (storage w)) = Some E"
    and "Method r = MethodPost" and "Path r = URL"
  shows "Option.bind (fst (serve r (c, w))) statusCode = Some 500 \<and>
         map_option body (fst (serve r (c, w))) =
           Some (''error purging storage: '' @ Error E @ [CHR 0x0A]) \<and>
         (\<exists>b. map_option body (fst (serve r (c, w))) = Some b \<and> sublist (Error E) b)"
proof -
  obtain st where "purge (storage w) = (Some E, st)"
    using assms(4) by (cases "purge (storage w)") auto
  then have "purgeHandler f newResponseWriter r (c, w) =
      (http_Error newResponseWriter (Error (Errorf_w ''error purging storage: '' E))
         StatusInternalServerError, c, w\<lparr>storage := st\<rparr>)"
    using assms(3) by (simp add: purgeHandler_def purgeStorage_def)
  then have st: "Option.bind (fst (serve r (c, w))) statusCode = Some 500"
    and bd: "map_option body (fst (serve r (c, w))) =
           Some (''error purging storage: '' @ Error E @ [CHR 0x0A])"
    using serve_started [OF assms(1,2,5,6), of w] by (simp_all add: http_defs Errorf_w_def)
  have "sublist (Error E) (''error purging storage: '' @ Error E @ [CHR 0x0A])"
    by (rule sublist_appendI)
  with st bd show ?thesis by blast
qed

theorem purge_failure_500_witness:
  "ex_host_fail (TraceStorage (config ex_cleaner)) = Some (Factory (Some ex_purge_fail)) \<and>
   Purger (Factory (Some ex_purge_fail)) = Some ex_purge_fail \<and>
   fst (ex_purge_fail (storage ex_world)) = Some (ErrorString ''disk unavailable'') \<and>
   Method ex_post = MethodPost \<and> Path ex_post = URL \<and>
   Option.bind (fst (serve ex_post (snd (Start ex_ctx ex_host_fail (ex_cleaner, ex_world))))) statusCode
     = Some 500 \<and>
   map_option body (fst (serve ex_post (snd (Start ex_ctx ex_host_fail (ex_cleaner, ex_world)))))
     = Some (''error purging storage: disk unavailable'' @ [CHR 0x0A])"
  using purge_failure_500 [of ex_host_fail ex_cleaner "Factory (Some ex_purge_fail)" ex_ctx ex_world
      "fst (Start ex_ctx ex_host_fail (ex_cleaner, ex_world))"
      "fst (snd (Start ex_ctx ex_host_fail (ex_cleaner, ex_world)))"
      "snd (snd (Start ex_ctx ex_host_fail (ex_cleaner, ex_world)))"
      ex_purge_fail "snd (snd (Start ex_ctx ex_host_fail (ex_cleaner, ex_world)))"
      "ErrorString ''disk unavailable''" ex_post]
  by (simp add: ex_host_fail_def ex_cleaner_def ex_config_def newStorageCleaner_def ex_purge_fail_def
      ex_post_def MethodPost_def URL_def)

text \<open>
  C10. Let \<^verbatim>\<open>Start\<close> have resolved the configured storage to a factory that does not
  implement \<^verbatim>\<open>Purger\<close>. Then \<^verbatim>\<open>Start\<close> returned \<^verbatim>\<open>nil\<close>, and of any number of
  \<^verbatim>\<open>POST /purge\<close> requests served one after the other, each is answered with status
  500 and the body \<^verbatim>\<open>storage <name> does not implement Purger interface\<close> and a
  newline: the type assertion is made anew for each request. The extension and the
  world, the stored data included, are afterwards as they were before, so no purge
  took place.
\<close>

theorem purge_without_purger:
  assumes "host (TraceStorage (config c0)) = Some f" and "Purger f = None"
    and "Start ctx host (c0, w0) = (e, c, w1)"
    and "\<forall>r \<in> set rs. Method r = MethodPost \<and> Path r = URL"
  shows "e = None \<and>
         map (\<lambda>resp. Option.bind resp statusCode) (fst (serveAll rs (c, w))) =
           replicate (length rs) (Some 500) \<and>
         map (map_option body) (fst (serveAll rs (c, w))) =
           replicate (length rs)
             (Some (''storage '' @ TraceStorage (config c0) @
                    '' does not implement Purger interface'' @ [CHR 0x0A])) \<and>
         snd (serveAll rs (c, w)) = (c, w)"
proof -
  from assms(1,3) have "e = None" by (simp add: Start_resolved)
  then show ?thesis
    by (simp add: serveAll_without_purger [OF assms] http_Error_fresh
        StatusInternalServerError_def)
qed


theorem purge_without_purger_witness:
  "ex_host_nopurger (TraceStorage (config ex_cleaner)) = Some (Factory None) \<and>
   Purger (Factory None :: nat Factory) = None \<and>
   Method ex_post = MethodPost \<and> Path ex_post = URL \<and>
   fst (Start ex_ctx ex_host_nopurger (ex_cleaner, ex_world)) = None \<and>
   map (\<lambda>resp. Option.bind resp statusCode)
     (fst (serveAll [ex_post, ex_post] (snd (Start ex_ctx ex_host_nopurger (ex_cleaner, ex_world))))) =
     [Some 500, Some 500] \<and>
   map (map_option body)
     (fst (serveAll [ex_post, ex_post] (snd (Start ex_ctx ex_host_nopurger (ex_cleaner, ex_world))))) =
     [Some (''storage some_store does not implement Purger interface'' @ [CHR 0x0A]),
      Some (''storage some_store does not implement Purger interface'' @ [CHR 0x0A])] \<and>
   snd (serveAll [ex_post, ex_post] (snd (Start ex_ctx ex_host_nopurger (ex_cleaner, ex_world)))) =
     snd (Start ex_ctx ex_host_nopurger (ex_cleaner, ex_world))"
  using purge_without_purger [of ex_host_nopurger ex_cleaner "Factory None" ex_ctx ex_world
      "fst (Start ex_ctx ex_host_nopurger (ex_cleaner, ex_world))"
      "fst (snd (Start ex_ctx ex_host_nopurger (ex_cleaner, ex_world)))"
      "snd (snd (Start ex_ctx ex_host_nopurger (ex_cleaner, ex_world)))"
      "[ex_post, ex_post]"
      "snd (snd (Start ex_ctx ex_host_nopurger (ex_cleaner, ex_world)))"]
  by (simp add: ex_host_nopurger_def ex_cleaner_def ex_config_def newStorageCleaner_def
      ex_post_def MethodPost_def URL_def)

subsection \<open>Start and Shutdown\<close>

text \<open>
  C4. If no storage is registered under the configured name, \<^verbatim>\<open>Start\<close> returns the
  error \<^verbatim>\<open>cannot find storage factory '<name>': <cause>\<close> wrapping the cause of the
  failed lookup, and leaves both the extension and the world as they were: the
  \<^verbatim>\<open>server\<close> field keeps its value (\<^verbatim>\<open>nil\<close> for a freshly constructed extension) and
  no goroutine is spawned.
\<close>

theorem start_unregistered_backend:
  assumes "host (TraceStorage (config c)) = None"
  shows "(\<exists>cause. GetStorageFactory (TraceStorage (config c)) host = Inl cause \<and>
            Start ctx host (c, w) =
              (Some (WrapError (''cannot find storage factory '' @ quote @ TraceStorage (config c) @
                                quote @ '': '' @ Error cause) cause), c, w)) \<and>
         server (fst (snd (Start ctx host (c, w)))) = server c \<and>
         goroutines (snd (snd (Start ctx host (c, w)))) = goroutines w"
  using assms by (simp add: Start_def GetStorageFactory_def Errorf_w_def)

theorem start_unregistered_backend_witness:
  "ex_host_other (TraceStorage (config ex_cleaner)) = None \<and>
   fst (Start ex_ctx ex_host_other (ex_cleaner, ex_world)) \<noteq> None \<and>
   snd (Start ex_ctx ex_host_other (ex_cleaner, ex_world)) = (ex_cleaner, ex_world) \<and>
   server ex_cleaner = None \<and> goroutines ex_world = []"
  using start_unregistered_backend [of ex_host_other ex_cleaner ex_ctx ex_world]
  by (auto simp add: ex_host_other_def ex_cleaner_def ex_config_def newStorageCleaner_def ex_world_def)

text \<open>
  C7. \<^verbatim>\<open>Shutdown\<close> on an extension whose \<^verbatim>\<open>server\<close> field is \<^verbatim>\<open>nil\<close> (none was ever
  started successfully) returns \<^verbatim>\<open>nil\<close> and changes nothing, whatever a graceful close
  would have returned.
\<close>

theorem stop_without_listener:
  assumes "server c = None"
  shows "Shutdown sd ctx (c, w) = (None, c, w)"
  using assms by (simp add: Shutdown_def)

theorem stop_without_listener_witness:
  "server ex_cleaner = None \<and>
   Shutdown ex_close_fail ex_ctx (ex_cleaner, ex_world) = (None, ex_cleaner, ex_world)"
  using stop_without_listener [of ex_cleaner ex_close_fail ex_ctx ex_world]
  by (simp add: ex_cleaner_def newStorageCleaner_def)

text \<open>
  C8. \<^verbatim>\<open>Shutdown\<close> on an extension with a server: if the server's graceful close under
  the given context returns an error, \<^verbatim>\<open>Shutdown\<close> returns
  \<^verbatim>\<open>error shutting down cleaner server: <cause>\<close>, which unwraps to that cause;
  if the close returns \<^verbatim>\<open>nil\<close>, so does \<^verbatim>\<open>Shutdown\<close>. The extension and the world are
  as before in both cases.
\<close>

theorem stop_with_listener:
  assumes "server c = Some srv"
  shows "Shutdown sd ctx (c, w) =
           (case sd srv ctx of
              None \<Rightarrow> None
            | Some cause \<Rightarrow>
                Some (WrapError (''error shutting down cleaner server: '' @ Error cause) cause),
            c, w) \<and>
         Option.bind (fst (Shutdown sd ctx (c, w))) Unwrap = sd srv ctx"
  using assms by (simp add: Shutdown_def Errorf_w_def split: option.splits)

theorem stop_with_listener_witness:
  "server (fst (snd (Start ex_ctx ex_host_ok (ex_cleaner, ex_world)))) \<noteq> None \<and>
   fst (Shutdown ex_close_fail ex_ctx (snd (Start ex_ctx ex_host_ok (ex_cleaner, ex_world)))) =
     Some (WrapError ''error shutting down cleaner server: context deadline exceeded''
             (ErrorString ''context deadline exceeded'')) \<and>
   fst (Shutdown ex_close_ok ex_ctx (snd (Start ex_ctx ex_host_ok (ex_cleaner, ex_world)))) = None"
  using stop_with_listener [of "fst (snd (Start ex_ctx ex_host_ok (ex_cleaner, ex_world)))"
      "the (server (fst (snd (Start ex_ctx ex_host_ok (ex_cleaner, ex_world)))))"
      ex_close_fail ex_ctx "snd (snd (Start ex_ctx ex_host_ok (ex_cleaner, ex_world)))"]
    stop_with_listener [of "fst (snd (Start ex_ctx ex_host_ok (ex_cleaner, ex_world)))"
      "the (server (fst (snd (Start ex_ctx ex_host_ok (ex_cleaner, ex_world)))))"
      ex_close_ok ex_ctx "snd (snd (Start ex_ctx ex_host_ok (ex_cleaner, ex_world)))"]
  by (simp add: Start_resolved ex_host_ok_def ex_cleaner_def ex_config_def newStorageCleaner_def
      ex_close_fail_def ex_close_ok_def)

text \<open>
  C9. Serving a request, \<^verbatim>\<open>POST /purge\<close> or any other, whether the purge succeeds,
  fails or is not available, leaves the three fields of the extension as they were.
\<close>

theorem purge_request_frame:
  "config (fst (snd (serve r (c, w)))) = config c \<and>
   server (fst (snd (serve r (c, w)))) = server c \<and>
   settings (fst (snd (serve r (c, w)))) = settings c"
  by (simp add: serve_frame)

subsection \<open>The listener goroutine\<close>

text \<open>
  C6. The goroutine never changes the extension. It reports a status event exactly
  when \<^verbatim>\<open>ListenAndServe\<close> returned an error for which \<^verbatim>\<open>errors.Is(err,
  http.ErrServerClosed)\<close> is false; the event is then the fatal error event of
  \<^verbatim>\<open>error starting cleaner server: <err>\<close>, appended to what had been reported. When
  \<^verbatim>\<open>ListenAndServe\<close> returns \<^verbatim>\<open>http.ErrServerClosed\<close> nothing changes. \<^verbatim>\<open>Start\<close> itself,
  once the storage is resolved, returns \<^verbatim>\<open>nil\<close> and reports nothing: what the listener
  does later is no input of \<^verbatim>\<open>Start\<close>.
\<close>

theorem listener_failure_reported:
  "fst (listenerTask res (c, w)) = c \<and>
   (statusEvents (snd (listenerTask res (c, w))) \<noteq> statusEvents w \<longleftrightarrow>
      (\<exists>err. res = Some err \<and> \<not> errors_Is err ErrServerClosed)) \<and>
   (\<forall>err. res = Some err \<and> \<not> errors_Is err ErrServerClosed \<longrightarrow>
      snd (listenerTask res (c, w)) =
        w\<lparr>statusEvents := statusEvents w @
             [NewFatalErrorEvent (WrapError (''error starting cleaner server: '' @ Error err) err)]\<rparr>) \<and>
   (res = Some ErrServerClosed \<longrightarrow> listenerTask res (c, w) = (c, w)) \<and>
   (host (TraceStorage (config c)) \<noteq> None \<longrightarrow>
      fst (Start ctx host (c, w)) = None \<and>
      statusEvents (snd (snd (Start ctx host (c, w)))) = statusEvents w)"
proof -
  have a: "fst (listenerTask res (c, w)) = c"
    by (simp add: listenerTask_def split: option.splits)
  have b: "statusEvents (snd (listenerTask res (c, w))) \<noteq> statusEvents w \<longleftrightarrow>
      (\<exists>err. res = Some err \<and> \<not> errors_Is err ErrServerClosed)"
    by (cases res) (simp_all add: listenerTask_def ReportStatus_def)
  have d: "\<forall>err. res = Some err \<and> \<not> errors_Is err ErrServerClosed \<longrightarrow>
      snd (listenerTask res (c, w)) =
        w\<lparr>statusEvents := statusEvents w @
             [NewFatalErrorEvent (WrapError (''error starting cleaner server: '' @ Error err) err)]\<rparr>"
    by (simp add: listenerTask_def ReportStatus_def Errorf_w_def)
  have e: "res = Some ErrServerClosed \<longrightarrow> listenerTask res (c, w) = (c, w)"
    by (simp add: listenerTask_def)
  have f: "host (TraceStorage (config c)) \<noteq> None \<longrightarrow>
      fst (Start ctx host (c, w)) = None \<and>
      statusEvents (snd (snd (Start ctx host (c, w)))) = statusEvents w"
    by (auto simp add: Start_resolved go_def)
  from a b d e f show ?thesis by blast
qed

theorem listener_failure_reported_witness:
  "\<not> errors_Is ex_bind_error ErrServerClosed \<and>
   statusEvents (snd (listenerTask (Some ex_bind_error) (ex_cleaner, ex_world))) =
     [NewFatalErrorEvent (WrapError
        ''error starting cleaner server: listen tcp :9231: bind: address already in use''
        ex_bind_error)] \<and>
   statusEvents (snd (listenerTask (Some ErrServerClosed) (ex_cleaner, ex_world))) = [] \<and>
   ex_host_ok (TraceStorage (config ex_cleaner)) \<noteq> None \<and>
   fst (Start ex_ctx ex_host_ok (ex_cleaner, ex_world)) = None"
  using listener_failure_reported [of "Some ex_bind_error" ex_cleaner ex_world ex_host_ok ex_ctx]
    listener_failure_reported [of "Some ErrServerClosed" ex_cleaner ex_world ex_host_ok ex_ctx]
  by (simp add: ex_bind_error_def ex_world_def ex_host_ok_def ex_cleaner_def ex_config_def
      newStorageCleaner_def)

subsection \<open>Start with a storage that cannot be purged\<close>

text \<open>
  C1 says that \<^verbatim>\<open>Start\<close> fails, and spawns no listener, when the resolved storage does
  not implement \<^verbatim>\<open>Purger\<close>. \<^verbatim>\<open>Start\<close> makes no type assertion: the only one is inside
  the closure \<^verbatim>\<open>purgeStorage\<close>, which runs per request. With a registered factory
  that is no \<^verbatim>\<open>Purger\<close>, \<^verbatim>\<open>Start\<close> returns \<^verbatim>\<open>nil\<close>, sets \<^verbatim>\<open>c.server\<close> and spawns the
  goroutine.
\<close>

theorem start_capability_counterexample:
  "ex_host_nopurger (TraceStorage (config ex_cleaner)) = Some (Factory None) \<and>
   Purger (Factory None :: nat Factory) = None \<and>
   fst (Start ex_ctx ex_host_nopurger (ex_cleaner, ex_world)) = None \<and>
   server (fst (snd (Start ex_ctx ex_host_nopurger (ex_cleaner, ex_world)))) \<noteq> None \<and>
   goroutines (snd (snd (Start ex_ctx ex_host_nopurger (ex_cleaner, ex_world)))) = [ListenerTask]"
  by (simp add: Start_def GetStorageFactory_def go_def ex_host_nopurger_def ex_cleaner_def ex_config_def
      newStorageCleaner_def ex_world_def)

text \<open>
  C1, as the code has it: for every configuration whose storage resolves to a factory
  that does not implement \<^verbatim>\<open>Purger\<close>, \<^verbatim>\<open>Start\<close> returns \<^verbatim>\<open>nil\<close>, sets \<^verbatim>\<open>c.server\<close> to a
  server on \<^verbatim>\<open>:<port>\<close> with the single route \<^verbatim>\<open>POST /purge\<close> and a read header
  timeout of three seconds, and spawns the listener goroutine; nothing else changes.
\<close>

theorem start_without_purger:
  assumes "host (TraceStorage (config c)) = Some f" and "Purger f = None"
  shows "Start ctx host (c, w) =
           (None,
            c\<lparr>server := Some \<lparr>Addr = '':'' @ Port (config c),
                               Handler = [\<lparr>route_path = ''/purge'', route_methods = [''POST''],
                                           route_handler = purgeHandlerFunc f\<rparr>],
                               ReadHeaderTimeout = 3000000000\<rparr>\<rparr>,
            w\<lparr>goroutines := goroutines w @ [ListenerTask]\<rparr>)"
  using assms(1)
  by (simp add: Start_def GetStorageFactory_def HandleFunc_Methods_def NewRouter_def go_def
      URL_def MethodPost_def Second_def)

theorem start_without_purger_witness:
  "ex_host_nopurger (TraceStorage (config ex_cleaner)) = Some (Factory None) \<and>
   Purger (Factory None :: nat Factory) = None \<and>
   Start ex_ctx ex_host_nopurger (ex_cleaner, ex_world) =
     (None,
      ex_cleaner\<lparr>server := Some \<lparr>Addr = '':9231'',
                         Handler = [\<lparr>route_path = ''/purge'', route_methods = [''POST''],
                                     route_handler = purgeHandlerFunc (Factory None)\<rparr>],
                         ReadHeaderTimeout = 3000000000\<rparr>\<rparr>,
      ex_world\<lparr>goroutines := [ListenerTask]\<rparr>)"
  using start_without_purger [of ex_host_nopurger ex_cleaner "Factory None" ex_ctx ex_world]
  by (simp add: ex_host_nopurger_def ex_cleaner_def ex_config_def newStorageCleaner_def ex_world_def)

subsection \<open>The server field over the life of the extension\<close>

text \<open>
  C5 says that the \<^verbatim>\<open>server\<close> field is \<^verbatim>\<open>nil\<close> again once \<^verbatim>\<open>Shutdown\<close> has run.
  \<^verbatim>\<open>Shutdown\<close> never assigns the field: after a successful \<^verbatim>\<open>Start\<close> and a successful
  \<^verbatim>\<open>Shutdown\<close> it is still set.
\<close>

theorem server_after_stop_counterexample:
  "fst (Start ex_ctx ex_host_ok (ex_cleaner, ex_world)) = None \<and>
   fst (Shutdown ex_close_ok ex_ctx (snd (Start ex_ctx ex_host_ok (ex_cleaner, ex_world)))) = None \<and>
   server (fst (snd (Shutdown ex_close_ok ex_ctx
                       (snd (Start ex_ctx ex_host_ok (ex_cleaner, ex_world)))))) \<noteq> None"
  by (simp add: Start_def Shutdown_def GetStorageFactory_def ex_host_ok_def ex_cleaner_def
      ex_config_def newStorageCleaner_def ex_close_ok_def)

text \<open>
  C5, as the code has it: the \<^verbatim>\<open>server\<close> field is \<^verbatim>\<open>nil\<close> after construction; after
  any history of calls to \<^verbatim>\<open>Start\<close> and \<^verbatim>\<open>Shutdown\<close>, requests served and returns of
  the listener, it is \<^verbatim>\<open>nil\<close> exactly when no \<^verbatim>\<open>Start\<close> of the history found the
  configured storage; and \<^verbatim>\<open>Shutdown\<close> leaves the extension, the field included, as
  it was.
\<close>

theorem server_field_history:
  "server (newStorageCleaner cfg ts) = None \<and>
   (server (fst (run sd (newStorageCleaner cfg ts, w) calls)) = None \<longleftrightarrow>
      \<not> list_ex (resolves cfg) calls) \<and>
   fst (snd (Shutdown sd ctx (c, w'))) = c"
  using run_server [of sd "(newStorageCleaner cfg ts, w)" calls] Shutdown_frame [of sd ctx "(c, w')"]
  by (simp add: newStorageCleaner_def)

theorem server_field_history_witness:
  "server (fst (run ex_close_ok (ex_cleaner, ex_world)
      [CallShutdown ex_ctx, CallStart ex_ctx ex_host_other, CallServe ex_post])) = None \<and>
   server (fst (run ex_close_ok (ex_cleaner, ex_world)
      [CallStart ex_ctx ex_host_ok, CallServe ex_post, CallShutdown ex_ctx])) \<noteq> None"
proof -
  have no: "\<not> list_ex (resolves ex_config)
      [CallShutdown ex_ctx, CallStart ex_ctx ex_host_other, CallServe ex_post]"
    by (simp add: ex_config_def ex_host_other_def)
  have yes: "list_ex (resolves ex_config)
      [CallStart ex_ctx ex_host_ok, CallServe ex_post, CallShutdown ex_ctx]"
    by (simp add: ex_config_def ex_host_ok_def)
  from no yes show ?thesis
    unfolding ex_cleaner_def
    using server_field_history [where cfg = ex_config and ts = ex_settings and sd = ex_close_ok
        and w = ex_world, THEN conjunct2, THEN conjunct1]
    by blast
qed

end
